theory Spec2Isabelle
  imports Main "HOL-Library.Multiset"
begin

section \<open>Python values\<close>

text \<open>
  A Python \<^verbatim>\<open>str\<close> is a sequence of Unicode code points, so it is modelled as a list of
  natural numbers; \<open>py\<close> turns an ASCII literal into that form.  Python's unbounded
  integers are \<open>int\<close>; \<^verbatim>\<open>None\<close> is the \<open>None\<close> of an option type.
\<close>

type_synonym pystr = "nat list"

definition py :: "string \<Rightarrow> pystr" where
  "py cs = map of_char cs"

text \<open>\<^verbatim>\<open>str.isspace\<close> for one code point: the characters \<^verbatim>\<open>str.strip()\<close> removes.\<close>

definition is_space :: "nat \<Rightarrow> bool" where
  "is_space c \<longleftrightarrow>
     (9 \<le> c \<and> c \<le> 13) \<or> (28 \<le> c \<and> c \<le> 32) \<or> c = 133 \<or> c = 160 \<or> c = 5760 \<or>
     (8192 \<le> c \<and> c \<le> 8202) \<or> c = 8232 \<or> c = 8233 \<or> c = 8239 \<or> c = 8287 \<or> c = 12288"

definition strip :: "pystr \<Rightarrow> pystr" where
  "strip s = rev (dropWhile is_space (rev (dropWhile is_space s)))"

text \<open>\<^verbatim>\<open>s.split(',')\<close>: every separator cuts, and the empty string gives one empty piece.\<close>

fun split_on :: "nat \<Rightarrow> pystr \<Rightarrow> pystr list" where
  "split_on sep [] = [[]]"
| "split_on sep (c # cs) =
     (if c = sep then [] # split_on sep cs
      else (case split_on sep cs of
              [] \<Rightarrow> [[c]]
            | w # ws \<Rightarrow> (c # w) # ws))"

text \<open>
  \<^verbatim>\<open>s.replace(old, new)\<close>: all non-overlapping occurrences of \<open>old\<close>, scanned from the
  left.  With an empty \<open>old\<close> Python puts \<open>new\<close> before every character and at the end.
\<close>

function replace :: "pystr \<Rightarrow> pystr \<Rightarrow> pystr \<Rightarrow> pystr" where
  "replace old new s =
     (if old = [] then new @ concat (map (\<lambda>c. c # new) s)
      else if s = [] then []
      else if take (length old) s = old then new @ replace old new (drop (length old) s)
      else hd s # replace old new (tl s))"
  by pat_completeness auto
termination
  by (relation "measure (\<lambda>(old, new, s). length s)") auto

text \<open>\<^verbatim>\<open>str(n)\<close> for an integer, as the f-string of the photo file name formats it.\<close>

fun digits :: "nat \<Rightarrow> pystr" where
  "digits n = (if n < 10 then [48 + n] else digits (n div 10) @ [48 + n mod 10])"

definition str_int :: "int \<Rightarrow> pystr" where
  "str_int i = (if i < 0 then 45 # digits (nat (- i)) else digits (nat i))"

declare replace.simps [simp del]
declare digits.simps [simp del]

section \<open>The tables of \<^verbatim>\<open>bot_admin/models.py\<close>\<close>

text \<open>
  One record per model class, one field per column the bot reads or writes.  Primary and
  foreign keys are integers, nullable columns are options, timestamps are integers
  (seconds of the database clock).  The two timestamp columns of a question are never
  touched by the bot and are left out.
\<close>

record question =
  q_id :: int
  q_order :: int
  question_type :: pystr
  q_text :: pystr
  choices :: "pystr option"
  q_image :: "pystr option"
  field_name :: "pystr option"
  is_required :: bool
  is_active :: bool

record userprofile =
  u_id :: int
  telegram_id :: int
  username :: "pystr option"
  first_name :: "pystr option"
  last_name :: "pystr option"
  current_question_id :: "int option"
  is_team_member :: bool
  is_registration_complete :: bool
  u_created_at :: int
  u_updated_at :: int

record userresponse =
  r_id :: int
  r_user_id :: int
  r_question_id :: int
  text_answer :: "pystr option"
  photo :: "pystr option"
  r_created_at :: int
  r_updated_at :: int

record staffapplication =
  a_id :: int
  a_user_id :: int
  status :: pystr
  position :: "pystr option"
  full_name :: "pystr option"
  address :: "pystr option"
  phone :: "pystr option"
  email :: "pystr option"
  passport_main :: "pystr option"
  passport_registration :: "pystr option"
  snils :: "pystr option"
  inn :: "pystr option"
  marital_status :: "pystr option"
  children :: "pystr option"
  emergency_contact :: "pystr option"
  additional_info :: "pystr option"
  a_created_at :: int
  a_updated_at :: int
  completed_at :: "int option"

text \<open>
  The database: each table is the list of its rows in storage order, \<open>db_now\<close> is what
  \<^verbatim>\<open>NOW()\<close> returns, and the three counters are the id sequences of the tables the
  bot inserts into.
\<close>

record db =
  questions :: "question list"
  users :: "userprofile list"
  responses :: "userresponse list"
  applications :: "staffapplication list"
  db_now :: int
  user_seq :: int
  response_seq :: int
  application_seq :: int

text \<open>
  What a storage call can raise: the connection or the statement fails
  (\<open>StorageFailure\<close>), a foreign key has no target (\<open>IntegrityError\<close>), a statement
  names a column the table does not have (\<open>ProgrammingError\<close>), or
  \<^verbatim>\<open>dict(cur.fetchone())\<close> is applied to \<^verbatim>\<open>None\<close> (\<open>TypeError\<close>).
\<close>

datatype error = StorageFailure | IntegrityError | ProgrammingError | TypeError

section \<open>\<^verbatim>\<open>telegram_bot/database.py\<close>\<close>

subsection \<open>Question operations\<close>

text \<open>
  \<^verbatim>\<open>ORDER BY "order" LIMIT 1\<close> is a sort of the selected rows on the \<open>order\<close> column
  followed by taking the first row.  SQL leaves the order of rows with equal keys open;
  the model keeps them in storage order (\<open>sort_key\<close> is stable).
\<close>

definition fetchone :: "'a list \<Rightarrow> 'a option" where
  "fetchone rows = (case rows of [] \<Rightarrow> None | r # _ \<Rightarrow> Some r)"


definition get_question_by_id :: "db \<Rightarrow> int option \<Rightarrow> question option" where
  "get_question_by_id d question_id =
     (case question_id of
        None \<Rightarrow> None
      | Some i \<Rightarrow> fetchone (filter (\<lambda>q. q_id q = i) (questions d)))"

definition get_next_question :: "db \<Rightarrow> int \<Rightarrow> question option" where
  "get_next_question d current_order =
     fetchone (sort_key q_order
       (filter (\<lambda>q. is_active q \<and> current_order < q_order q) (questions d)))"

definition get_first_question :: "db \<Rightarrow> question option" where
  "get_first_question d = fetchone (sort_key q_order (filter is_active (questions d)))"

subsection \<open>User operations\<close>

definition get_user :: "db \<Rightarrow> int \<Rightarrow> userprofile option" where
  "get_user d tid = fetchone (filter (\<lambda>u. telegram_id u = tid) (users d))"

definition get_or_create_user ::
  "db \<Rightarrow> int \<Rightarrow> pystr option \<Rightarrow> pystr option \<Rightarrow> pystr option \<Rightarrow> error + db \<times> userprofile" where
  "get_or_create_user d tid uname fname lname =
     (case fetchone (filter (\<lambda>u. telegram_id u = tid) (users d)) of
        Some user \<Rightarrow> Inr (d, user)
      | None \<Rightarrow>
          (let user = \<lparr>u_id = user_seq d, telegram_id = tid, username = uname,
                        first_name = fname, last_name = lname, current_question_id = None,
                        is_team_member = False, is_registration_complete = False,
                        u_created_at = db_now d, u_updated_at = db_now d\<rparr>
           in Inr (d\<lparr>users := users d @ [user], user_seq := user_seq d + 1\<rparr>, user)))"

text \<open>
  The keyword arguments of \<^verbatim>\<open>update_user\<close> name columns of the profile table; the
  callers pass the three below.  A question id that is set must exist in the question
  table (the foreign key of \<^verbatim>\<open>current_question\<close>).
\<close>

datatype user_kwarg =
    Is_team_member bool
  | Is_registration_complete bool
  | Current_question_id "int option"

fun set_user_column :: "user_kwarg \<Rightarrow> userprofile \<Rightarrow> userprofile" where
  "set_user_column (Is_team_member b) u = u\<lparr>is_team_member := b\<rparr>"
| "set_user_column (Is_registration_complete b) u = u\<lparr>is_registration_complete := b\<rparr>"
| "set_user_column (Current_question_id q) u = u\<lparr>current_question_id := q\<rparr>"

definition fk_question :: "db \<Rightarrow> int option \<Rightarrow> bool" where
  "fk_question d question_id =
     (case question_id of None \<Rightarrow> True | Some i \<Rightarrow> i \<in> set (map q_id (questions d)))"

fun fk_user_kwarg :: "db \<Rightarrow> user_kwarg \<Rightarrow> bool" where
  "fk_user_kwarg d (Current_question_id q) = fk_question d q"
| "fk_user_kwarg d (Is_team_member b) = True"
| "fk_user_kwarg d (Is_registration_complete b) = True"

definition update_user :: "db \<Rightarrow> int \<Rightarrow> user_kwarg list \<Rightarrow> error + db \<times> userprofile" where
  "update_user d tid kwargs =
     (let users' = map (\<lambda>u. if telegram_id u = tid
                              then (fold set_user_column kwargs u)\<lparr>u_updated_at := db_now d\<rparr>
                              else u) (users d)
      in case fetchone (filter (\<lambda>u. telegram_id u = tid) users') of
           None \<Rightarrow> Inl TypeError
         | Some user \<Rightarrow>
             if list_all (fk_user_kwarg d) kwargs then Inr (d\<lparr>users := users'\<rparr>, user)
             else Inl IntegrityError)"

definition set_current_question :: "db \<Rightarrow> int \<Rightarrow> int option \<Rightarrow> error + db \<times> unit" where
  "set_current_question d tid question_id =
     (if filter (\<lambda>u. telegram_id u = tid) (users d) \<noteq> [] \<and> \<not> fk_question d question_id
      then Inl IntegrityError
      else Inr (d\<lparr>users := map (\<lambda>u. if telegram_id u = tid
                                       then u\<lparr>current_question_id := question_id,
                                              u_updated_at := db_now d\<rparr>
                                       else u) (users d)\<rparr>, ()))"

subsection \<open>Response operations\<close>

definition save_response ::
  "db \<Rightarrow> int \<Rightarrow> int \<Rightarrow> pystr option \<Rightarrow> pystr option \<Rightarrow> error + db \<times> unit" where
  "save_response d user_id question_id text_answer' photo_path =
     (case fetchone (filter (\<lambda>r. r_user_id r = user_id \<and> r_question_id r = question_id)
                       (responses d)) of
        Some existing \<Rightarrow>
          Inr (d\<lparr>responses :=
                   map (\<lambda>r. if r_user_id r = user_id \<and> r_question_id r = question_id
                            then r\<lparr>text_answer := text_answer', photo := photo_path,
                                   r_updated_at := db_now d\<rparr>
                            else r) (responses d)\<rparr>, ())
      | None \<Rightarrow>
          if user_id \<in> set (map u_id (users d)) \<and> question_id \<in> set (map q_id (questions d))
          then Inr (d\<lparr>responses := responses d @
                     [\<lparr>r_id = response_seq d, r_user_id = user_id, r_question_id = question_id,
                       text_answer = text_answer', photo = photo_path,
                       r_created_at = db_now d, r_updated_at = db_now d\<rparr>],
                   response_seq := response_seq d + 1\<rparr>, ())
          else Inl IntegrityError)"

subsection \<open>StaffApplication operations\<close>

definition get_or_create_application :: "db \<Rightarrow> int \<Rightarrow> error + db \<times> staffapplication" where
  "get_or_create_application d user_id =
     (case fetchone (filter (\<lambda>a. a_user_id a = user_id) (applications d)) of
        Some app \<Rightarrow> Inr (d, app)
      | None \<Rightarrow>
          if user_id \<in> set (map u_id (users d))
          then (let app = \<lparr>a_id = application_seq d, a_user_id = user_id,
                             status = py ''in_progress'', position = None, full_name = None,
                             address = None, phone = None, email = None, passport_main = None,
                             passport_registration = None, snils = None, inn = None,
                             marital_status = None, children = None, emergency_contact = None,
                             additional_info = None, a_created_at = db_now d,
                             a_updated_at = db_now d, completed_at = None\<rparr>
                in Inr (d\<lparr>applications := applications d @ [app],
                          application_seq := application_seq d + 1\<rparr>, app))
          else Inl IntegrityError)"

text \<open>
  \<^verbatim>\<open>update_application\<close> builds its \<^verbatim>\<open>SET\<close> clause from the keyword names.  The
  names the bot passes are \<^verbatim>\<open>position\<close> and the twelve of \<^verbatim>\<open>valid_fields\<close>, all
  nullable character columns; any other name is answered with \<open>ProgrammingError\<close>.
\<close>

definition application_columns :: "pystr list" where
  "application_columns =
     [py ''position'', py ''full_name'', py ''address'', py ''phone'', py ''email'',
      py ''passport_main'', py ''passport_registration'', py ''snils'', py ''inn'',
      py ''marital_status'', py ''children'', py ''emergency_contact'', py ''additional_info'']"

definition set_column :: "pystr \<times> pystr option \<Rightarrow> staffapplication \<Rightarrow> staffapplication" where
  "set_column kv a =
     (let k = fst kv; v = snd kv in
      if k = py ''position'' then a\<lparr>position := v\<rparr>
      else if k = py ''full_name'' then a\<lparr>full_name := v\<rparr>
      else if k = py ''address'' then a\<lparr>address := v\<rparr>
      else if k = py ''phone'' then a\<lparr>phone := v\<rparr>
      else if k = py ''email'' then a\<lparr>email := v\<rparr>
      else if k = py ''passport_main'' then a\<lparr>passport_main := v\<rparr>
      else if k = py ''passport_registration'' then a\<lparr>passport_registration := v\<rparr>
      else if k = py ''snils'' then a\<lparr>snils := v\<rparr>
      else if k = py ''inn'' then a\<lparr>inn := v\<rparr>
      else if k = py ''marital_status'' then a\<lparr>marital_status := v\<rparr>
      else if k = py ''children'' then a\<lparr>children := v\<rparr>
      else if k = py ''emergency_contact'' then a\<lparr>emergency_contact := v\<rparr>
      else if k = py ''additional_info'' then a\<lparr>additional_info := v\<rparr>
      else a)"

definition update_application ::
  "db \<Rightarrow> int \<Rightarrow> (pystr \<times> pystr option) list \<Rightarrow> error + db \<times> staffapplication option" where
  "update_application d user_id kwargs =
     (if list_all (\<lambda>kv. fst kv \<in> set application_columns) kwargs
      then (let apps' = map (\<lambda>a. if a_user_id a = user_id
                                  then (fold set_column kwargs a)\<lparr>a_updated_at := db_now d\<rparr>
                                  else a) (applications d)
            in Inr (d\<lparr>applications := apps'\<rparr>,
                    fetchone (filter (\<lambda>a. a_user_id a = user_id) apps')))
      else Inl ProgrammingError)"

definition complete_application :: "db \<Rightarrow> int \<Rightarrow> error + db \<times> staffapplication option" where
  "complete_application d user_id =
     (let apps' = map (\<lambda>a. if a_user_id a = user_id
                            then a\<lparr>status := py ''completed'', completed_at := Some (db_now d),
                                   a_updated_at := db_now d\<rparr>
                            else a) (applications d)
      in Inr (d\<lparr>applications := apps'\<rparr>,
              fetchone (filter (\<lambda>a. a_user_id a = user_id) apps')))"

section \<open>\<^verbatim>\<open>telegram_bot/keyboards/inline.py\<close>\<close>

text \<open>A button is its label and its callback data; a keyboard is a list of rows.\<close>

datatype button = InlineKeyboardButton pystr pystr

type_synonym markup = "button list list"

text \<open>The two labels are a check mark and a cross, each followed by the Russian yes or no.\<close>

definition get_team_member_keyboard :: markup where
  "get_team_member_keyboard =
     [[InlineKeyboardButton [9989, 32, 1044, 1072] (py ''team_yes''),
       InlineKeyboardButton [10060, 32, 1053, 1077, 1090] (py ''team_no'')]]"

definition get_choices_keyboard :: "pystr \<Rightarrow> markup" where
  "get_choices_keyboard cs =
     map (\<lambda>choice. [InlineKeyboardButton choice (py ''choice_'' @ choice)])
       (map strip (split_on 44 cs))"

section \<open>The bot's world\<close>

text \<open>
  \<^verbatim>\<open>states/registration.py\<close>: the three states of the conversation.  The FSM context of
  the sender holds the state (or none) and the data dictionary, whose three keys are the
  ones the handlers store; a key that was never stored reads as \<open>None\<close>.
\<close>

datatype reg_state = Asking_team_member | Asking_position | Answering_questions

record fsm =
  fsm_state :: "reg_state option"
  data_position :: "pystr option"
  data_question_id :: "int option"
  data_question_order :: "int option"

text \<open>
  The fixed texts of the handlers are named, not spelled: the five module constants keep
  their names, the literals are named after what they say.  A question is sent with its
  own text.
\<close>

datatype message_text =
    MISSION_MESSAGE | VALUES_MESSAGE | GOAL_MESSAGE | COMPLETION_MESSAGE | WELCOME_MESSAGE
  | Already_completed | Ask_team_member | Ask_position | Not_for_outsiders | No_questions_yet
  | Error_start_over | Question_not_found | User_not_found | Send_photo_not_text
  | Question_text pystr

datatype out =
    Answer message_text "markup option"
  | Answer_photo pystr message_text "markup option"
  | Edit_text message_text
  | Edit_reply_markup_none
  | Callback_answer

record sender =
  from_id :: int
  from_username :: "pystr option"
  from_first_name :: "pystr option"
  from_last_name :: "pystr option"

text \<open>
  What one handler run sees and changes: the database, the sender's FSM context, the
  messages sent so far, the files under the media directory, the local time as
  \<^verbatim>\<open>strftime('%Y%m%d_%H%M%S')\<close> prints it, and the id of the bot's own account (the
  author of a message that carries a keyboard).  \<open>budget\<close> is the number of storage calls
  that still succeed before the storage fails: \<open>None\<close> is a storage that never fails.
\<close>

record world =
  store :: db
  session :: fsm
  outbox :: "out list"
  files :: "pystr list"
  wall_clock :: pystr
  bot_id :: int
  budget :: "nat option"

text \<open>
  A handler is a function from the world to an outcome and the world it leaves.  An
  exception (\<open>Inl\<close>) ends the handler at once; what was committed or sent before stays.
  Every function of \<^verbatim>\<open>database.py\<close> opens a connection and runs one transaction:
  \<open>query\<close> wraps one that only reads, \<open>command\<close> one that writes, and a failed one
  leaves the database as it was.
\<close>

type_synonym 'a action = "world \<Rightarrow> (error + 'a) \<times> world"

definition ret :: "'a \<Rightarrow> 'a action" where
  "ret x = (\<lambda>w. (Inr x, w))"

definition and_then :: "'a action \<Rightarrow> ('a \<Rightarrow> 'b action) \<Rightarrow> 'b action" where
  "and_then m f = (\<lambda>w. case m w of (Inl e, w') \<Rightarrow> (Inl e, w') | (Inr x, w') \<Rightarrow> f x w')"

definition next_do :: "unit action \<Rightarrow> 'b action \<Rightarrow> 'b action" where
  "next_do m k = and_then m (\<lambda>_. k)"

definition query :: "(db \<Rightarrow> 'a) \<Rightarrow> 'a action" where
  "query f = (\<lambda>w. case budget w of
                      None \<Rightarrow> (Inr (f (store w)), w)
                    | Some 0 \<Rightarrow> (Inl StorageFailure, w)
                    | Some (Suc n) \<Rightarrow> (Inr (f (store w)), w\<lparr>budget := Some n\<rparr>))"

definition run_command :: "(db \<Rightarrow> error + db \<times> 'a) \<Rightarrow> 'a action" where
  "run_command f = (\<lambda>w. case f (store w) of
                            Inl e \<Rightarrow> (Inl e, w)
                          | Inr (d, x) \<Rightarrow> (Inr x, w\<lparr>store := d\<rparr>))"

definition command :: "(db \<Rightarrow> error + db \<times> 'a) \<Rightarrow> 'a action" where
  "command f = (\<lambda>w. case budget w of
                        None \<Rightarrow> run_command f w
                      | Some 0 \<Rightarrow> (Inl StorageFailure, w)
                      | Some (Suc n) \<Rightarrow> run_command f (w\<lparr>budget := Some n\<rparr>))"

definition send :: "out \<Rightarrow> unit action" where
  "send m = (\<lambda>w. (Inr (), w\<lparr>outbox := outbox w @ [m]\<rparr>))"

definition get_data :: "fsm action" where
  "get_data = (\<lambda>w. (Inr (session w), w))"

definition state_clear :: "unit action" where
  "state_clear = (\<lambda>w. (Inr (), w\<lparr>session := \<lparr>fsm_state = None, data_position = None,
                     data_question_id = None, data_question_order = None\<rparr>\<rparr>))"

definition set_state :: "reg_state \<Rightarrow> unit action" where
  "set_state st = (\<lambda>w. (Inr (), w\<lparr>session := (session w)\<lparr>fsm_state := Some st\<rparr>\<rparr>))"

definition update_data_position :: "pystr option \<Rightarrow> unit action" where
  "update_data_position p = (\<lambda>w. (Inr (), w\<lparr>session := (session w)\<lparr>data_position := p\<rparr>\<rparr>))"

definition update_data_question :: "int \<Rightarrow> int \<Rightarrow> unit action" where
  "update_data_question qid qorder =
     (\<lambda>w. (Inr (), w\<lparr>session := (session w)\<lparr>data_question_id := Some qid,
                                              data_question_order := Some qorder\<rparr>\<rparr>))"

definition path_exists :: "pystr \<Rightarrow> bool action" where
  "path_exists p = (\<lambda>w. (Inr (p \<in> set (files w)), w))"

definition download_file :: "pystr \<Rightarrow> unit action" where
  "download_file p = (\<lambda>w. (Inr (), w\<lparr>files := files w @ [p]\<rparr>))"

definition now_strftime :: "pystr action" where
  "now_strftime = (\<lambda>w. (Inr (wall_clock w), w))"

text \<open>Python truth of an optional string.\<close>

definition truthy_str :: "pystr option \<Rightarrow> bool" where
  "truthy_str s = (case s of None \<Rightarrow> False | Some cs \<Rightarrow> cs \<noteq> [])"

text \<open>What an f-string prints for an optional string.\<close>

definition format_opt :: "pystr option \<Rightarrow> pystr" where
  "format_opt s = (case s of None \<Rightarrow> py ''None'' | Some cs \<Rightarrow> cs)"

section \<open>\<^verbatim>\<open>telegram_bot/handlers/start.py\<close>\<close>

definition cmd_start :: "sender \<Rightarrow> unit action" where
  "cmd_start from_user =
     next_do state_clear
     (and_then (command (\<lambda>d. get_or_create_user d (from_id from_user) (from_username from_user)
                                (from_first_name from_user) (from_last_name from_user)))
       (\<lambda>user_data.
          if is_registration_complete user_data then send (Answer Already_completed None)
          else
            and_then (path_exists (py ''/app/media/welcome.jpg''))
              (\<lambda>found.
                 next_do (if found
                          then send (Answer_photo (py ''/app/media/welcome.jpg'') WELCOME_MESSAGE None)
                          else send (Answer WELCOME_MESSAGE None))
                 (next_do (send (Answer Ask_team_member (Some get_team_member_keyboard)))
                 (set_state Asking_team_member)))))"

section \<open>\<^verbatim>\<open>telegram_bot/handlers/registration.py\<close>\<close>

text \<open>
  \<^verbatim>\<open>if not question_id\<close> is the branch of an id that is \<^verbatim>\<open>None\<close> or zero.  In
  \<^verbatim>\<open>process_choice_answer\<close> the id is looked up unchecked; an absent id finds no
  question, so the second branch of its case is never taken.
\<close>

definition process_team_member :: "sender \<Rightarrow> pystr \<Rightarrow> unit action" where
  "process_team_member from_user callback_data =
     next_do (send Callback_answer)
     (and_then (command (\<lambda>d. update_user d (from_id from_user)
                                [Is_team_member (callback_data = py ''team_yes'')]))
       (\<lambda>_. if callback_data = py ''team_yes''
            then next_do (send (Edit_text Ask_position)) (set_state Asking_position)
            else next_do (send (Edit_text Not_for_outsiders)) state_clear))"

definition send_question :: "question \<Rightarrow> unit action" where
  "send_question q =
     (let keyboard = (if question_type q = py ''choice'' \<and> truthy_str (choices q)
                      then Some (get_choices_keyboard (format_opt (choices q))) else None)
      in and_then (if truthy_str (q_image q)
                   then path_exists (py ''/app/media/'' @ format_opt (q_image q))
                   else ret False)
           (\<lambda>with_image.
              if with_image
              then send (Answer_photo (py ''/app/media/'' @ format_opt (q_image q))
                           (Question_text (q_text q)) keyboard)
              else send (Answer (Question_text (q_text q)) keyboard)))"

definition valid_fields :: "pystr list" where
  "valid_fields =
     [py ''full_name'', py ''address'', py ''phone'', py ''email'',
      py ''passport_main'', py ''passport_registration'', py ''snils'', py ''inn'',
      py ''marital_status'', py ''children'', py ''emergency_contact'', py ''additional_info'']"

definition save_to_application :: "int \<Rightarrow> pystr option \<Rightarrow> pystr \<Rightarrow> unit action" where
  "save_to_application user_id fname v =
     (if \<not> truthy_str fname then ret ()
      else if format_opt fname \<in> set valid_fields
      then and_then (command (\<lambda>d. update_application d user_id [(format_opt fname, Some v)]))
             (\<lambda>_. ret ())
      else ret ())"

definition process_position :: "sender \<Rightarrow> pystr option \<Rightarrow> unit action" where
  "process_position from_user message_text =
     and_then (query (\<lambda>d. get_user d (from_id from_user)))
       (\<lambda>user.
          next_do (case user of
                     None \<Rightarrow> ret ()
                   | Some u \<Rightarrow>
                       and_then (command (\<lambda>d. get_or_create_application d (u_id u)))
                         (\<lambda>_. and_then (command (\<lambda>d. update_application d (u_id u)
                                                    [(py ''position'', message_text)]))
                                 (\<lambda>_. ret ())))
          (next_do (update_data_position message_text)
          (next_do (send (Answer MISSION_MESSAGE None))
          (and_then (query get_first_question)
             (\<lambda>first_question.
                case first_question of
                  Some q \<Rightarrow>
                    next_do (command (\<lambda>d. set_current_question d (from_id from_user) (Some (q_id q))))
                    (next_do (update_data_question (q_id q) (q_order q))
                    (next_do (send_question q)
                    (set_state Answering_questions)))
                | None \<Rightarrow>
                    next_do (send (Answer No_questions_yet None)) state_clear)))))"

definition move_to_next_question :: "int \<Rightarrow> int option \<Rightarrow> question \<Rightarrow> unit action" where
  "move_to_next_question message_from_id from_user_id current_question =
     (let user_id = (case from_user_id of
                       None \<Rightarrow> message_from_id
                     | Some i \<Rightarrow> if i = 0 then message_from_id else i)
      in and_then (query (\<lambda>d. get_next_question d (q_order current_question)))
           (\<lambda>next_question.
              case next_question of
                Some nq \<Rightarrow>
                  next_do (if field_name current_question = Some (py ''full_name'')
                           then send (Answer GOAL_MESSAGE None) else ret ())
                  (next_do (if field_name nq = Some (py ''snils'')
                            then send (Answer VALUES_MESSAGE None) else ret ())
                  (next_do (command (\<lambda>d. set_current_question d user_id (Some (q_id nq))))
                  (next_do (update_data_question (q_id nq) (q_order nq))
                  (send_question nq))))
              | None \<Rightarrow>
                  and_then (command (\<lambda>d. update_user d user_id
                                           [Is_registration_complete True, Current_question_id None]))
                    (\<lambda>_. and_then (query (\<lambda>d. get_user d user_id))
                       (\<lambda>user.
                          next_do (case user of
                                     None \<Rightarrow> ret ()
                                   | Some u \<Rightarrow>
                                       and_then (command (\<lambda>d. complete_application d (u_id u)))
                                         (\<lambda>_. ret ()))
                          (next_do (send (Answer COMPLETION_MESSAGE None))
                          state_clear)))))"

definition process_photo_answer :: "sender \<Rightarrow> unit action" where
  "process_photo_answer from_user =
     and_then get_data
       (\<lambda>state_data.
          case data_question_id state_data of
            None \<Rightarrow> next_do (send (Answer Error_start_over None)) state_clear
          | Some question_id \<Rightarrow>
            if question_id = 0
            then next_do (send (Answer Error_start_over None)) state_clear
            else
            and_then (query (\<lambda>d. get_question_by_id d (Some question_id)))
              (\<lambda>question.
                 case question of
                   None \<Rightarrow> next_do (send (Answer Question_not_found None)) state_clear
                 | Some q \<Rightarrow>
                     and_then (query (\<lambda>d. get_user d (from_id from_user)))
                       (\<lambda>user.
                          case user of
                            None \<Rightarrow> next_do (send (Answer User_not_found None)) state_clear
                          | Some u \<Rightarrow>
                              and_then now_strftime
                                (\<lambda>stamp.
                                   let filename = str_int (from_id from_user) @ py ''_'' @ stamp
                                                    @ py ''.jpg'';
                                       relative_path = py ''applications/''
                                                    @ format_opt (field_name q) @ py ''/'' @ filename
                                   in next_do (download_file (py ''/app/media/'' @ relative_path))
                                      (next_do (command (\<lambda>d. save_response d (u_id u)
                                                  question_id None (Some relative_path)))
                                      (next_do (save_to_application (u_id u) (field_name q)
                                                  relative_path)
                                      (move_to_next_question (from_id from_user) None q)))))))"

definition process_text_answer :: "sender \<Rightarrow> pystr \<Rightarrow> unit action" where
  "process_text_answer from_user message_text =
     and_then get_data
       (\<lambda>state_data.
          case data_question_id state_data of
            None \<Rightarrow> next_do (send (Answer Error_start_over None)) state_clear
          | Some question_id \<Rightarrow>
            if question_id = 0
            then next_do (send (Answer Error_start_over None)) state_clear
            else
            and_then (query (\<lambda>d. get_question_by_id d (Some question_id)))
              (\<lambda>question.
                 case question of
                   None \<Rightarrow> next_do (send (Answer Question_not_found None)) state_clear
                 | Some q \<Rightarrow>
                     if question_type q = py ''photo''
                     then send (Answer Send_photo_not_text None)
                     else
                       and_then (query (\<lambda>d. get_user d (from_id from_user)))
                         (\<lambda>user.
                            case user of
                              None \<Rightarrow> next_do (send (Answer User_not_found None)) state_clear
                            | Some u \<Rightarrow>
                                next_do (command (\<lambda>d. save_response d (u_id u) question_id
                                           (Some message_text) None))
                                (next_do (save_to_application (u_id u) (field_name q) message_text)
                                (move_to_next_question (from_id from_user) None q)))))"

definition process_choice_answer :: "sender \<Rightarrow> pystr \<Rightarrow> unit action" where
  "process_choice_answer from_user callback_data =
     next_do (send Callback_answer)
     (and_then get_data
       (\<lambda>state_data.
          and_then (query (\<lambda>d. get_question_by_id d (data_question_id state_data)))
            (\<lambda>question.
               case (question, data_question_id state_data) of
                 (None, _) \<Rightarrow> next_do (send (Edit_text Question_not_found)) state_clear
               | (Some q, None) \<Rightarrow> next_do (send (Edit_text Question_not_found)) state_clear
               | (Some q, Some question_id) \<Rightarrow>
                   and_then (query (\<lambda>d. get_user d (from_id from_user)))
                     (\<lambda>user.
                        case user of
                          None \<Rightarrow> next_do (send (Edit_text User_not_found)) state_clear
                        | Some u \<Rightarrow>
                            (let answer = replace (py ''choice_'') [] callback_data
                             in next_do (command (\<lambda>d. save_response d (u_id u)
                                           question_id (Some answer) None))
                                (next_do (save_to_application (u_id u) (field_name q) answer)
                                (next_do (send Edit_reply_markup_none)
                                (and_then (\<lambda>w. (Inr (bot_id w), w))
                                   (\<lambda>bot. move_to_next_question bot
                                            (Some (from_id from_user)) q)))))))))"

section \<open>\<^verbatim>\<open>telegram_bot/bot.py\<close>: routing\<close>

text \<open>
  The dispatcher tries the start router, then the registration router; within a router
  the handlers are tried in the order they are registered and the first whose filters
  match runs.  An update no handler matches changes nothing.
\<close>

datatype event =
    Command_start
  | Text_message pystr
  | Photo_message
  | Other_message
  | Callback_query pystr

definition dispatch :: "sender \<Rightarrow> event \<Rightarrow> unit action" where
  "dispatch from_user ev =
     (\<lambda>w. case ev of
             Command_start \<Rightarrow> cmd_start from_user w
           | Text_message t \<Rightarrow>
               (if fsm_state (session w) = Some Asking_position
                then process_position from_user (Some t) w
                else if fsm_state (session w) = Some Answering_questions
                then process_text_answer from_user t w
                else (Inr (), w))
           | Photo_message \<Rightarrow>
               (if fsm_state (session w) = Some Asking_position
                then process_position from_user None w
                else if fsm_state (session w) = Some Answering_questions
                then process_photo_answer from_user w
                else (Inr (), w))
           | Other_message \<Rightarrow>
               (if fsm_state (session w) = Some Asking_position
                then process_position from_user None w
                else (Inr (), w))
           | Callback_query data \<Rightarrow>
               (if fsm_state (session w) = Some Asking_team_member
                   \<and> data \<in> set [py ''team_yes'', py ''team_no'']
                then process_team_member from_user data w
                else if fsm_state (session w) = Some Answering_questions
                then process_choice_answer from_user data w
                else (Inr (), w)))"

section \<open>The walk through the catalog\<close>






section \<open>Answering a question more than once\<close>



section \<open>Completion\<close>



section \<open>Example data\<close>

definition example_question :: "int \<Rightarrow> int \<Rightarrow> pystr \<Rightarrow> pystr option \<Rightarrow> question" where
  "example_question i n ty fname =
     \<lparr>q_id = i, q_order = n, question_type = ty, q_text = py ''?'', choices = None,
      q_image = None, field_name = fname, is_required = True, is_active = True\<rparr>"

definition empty_db :: db where
  "empty_db = \<lparr>questions = [], users = [], responses = [], applications = [], db_now = 100,
               user_seq = 1, response_seq = 1, application_seq = 1\<rparr>"



definition example_user :: userprofile where
  "example_user = \<lparr>u_id = 7, telegram_id = 1001, username = Some (py ''ivan''),
                    first_name = Some (py ''Ivan''), last_name = None,
                    current_question_id = Some 1, is_team_member = True,
                    is_registration_complete = False, u_created_at = 50, u_updated_at = 60\<rparr>"

definition example_response :: userresponse where
  "example_response = \<lparr>r_id = 1, r_user_id = 7, r_question_id = 2,
                        text_answer = Some (py ''old''), photo = Some (py ''old.jpg''),
                        r_created_at = 70, r_updated_at = 70\<rparr>"

definition scenario_db :: db where
  "scenario_db = empty_db\<lparr>
     questions := [example_question 1 1 (py ''text'') (Some (py ''full_name'')),
                   example_question 2 2 (py ''photo'') (Some (py ''passport_main'')),
                   (example_question 3 3 (py ''choice'') (Some (py ''marital_status'')))
                     \<lparr>choices := Some (py ''married,single'')\<rparr>],
     users := [example_user],
     responses := [example_response]\<rparr>"

definition example_sender :: sender where
  "example_sender = \<lparr>from_id = 1001, from_username = Some (py ''ivan''),
                      from_first_name = Some (py ''Ivan''), from_last_name = None\<rparr>"

definition example_application :: staffapplication where
  "example_application =
     \<lparr>a_id = 3, a_user_id = 7, status = py ''in_progress'', position = Some (py ''teacher''),
      full_name = None, address = None, phone = None, email = None, passport_main = None,
      passport_registration = None, snils = None, inn = None, marital_status = None,
      children = None, emergency_contact = None, additional_info = None,
      a_created_at = 80, a_updated_at = 80, completed_at = None\<rparr>"

definition example_world :: "db \<Rightarrow> reg_state option \<Rightarrow> int option \<Rightarrow> world" where
  "example_world d st question_id =
     \<lparr>store = d,
      session = \<lparr>fsm_state = st, data_position = None, data_question_id = question_id,
                 data_question_order = question_id\<rparr>,
      outbox = [], files = [], wall_clock = py ''20240101_120000'', bot_id = 999,
      budget = None\<rparr>"

definition phone_db :: db where
  "phone_db = empty_db\<lparr>
     questions := [example_question 1 1 (py ''text'') (Some (py ''phone'')),
                   example_question 2 2 (py ''text'') (Some (py ''nickname''))],
     users := [example_user],
     applications := [example_application]\<rparr>"

definition completed_db :: db where
  "completed_db = scenario_db\<lparr>
     users := [example_user\<lparr>is_registration_complete := True, current_question_id := None\<rparr>],
     applications := [example_application\<lparr>status := py ''completed'', completed_at := Some 90\<rparr>]\<rparr>"

definition choice_db :: db where
  "choice_db = empty_db\<lparr>
     questions := [(example_question 1 1 (py ''choice'') (Some (py ''marital_status'')))
                     \<lparr>choices := Some (py ''choice_A,B'')\<rparr>,
                   example_question 2 2 (py ''text'') None],
     users := [example_user],
     applications := [example_application]\<rparr>"




section \<open>The question catalog\<close>















section \<open>The response log\<close>


lemma filter_map_update_other:
  assumes "\<And>x. P x \<Longrightarrow> \<not> Q x" and "\<And>x. P x \<Longrightarrow> \<not> Q (f x)"
  shows "filter Q (map (\<lambda>x. if P x then f x else x) xs) = filter Q xs"
  using assms by (induction xs) auto










section \<open>The handlers\<close>

lemma query_ok: "budget w = None \<Longrightarrow> query f w = (Inr (f (store w)), w)"
  by (simp add: query_def)

lemma command_ok: "budget w = None \<Longrightarrow> command f w = run_command f w"
  by (simp add: command_def)



















lemmas action_defs = dispatch_def cmd_start_def process_team_member_def send_question_def
  save_to_application_def process_position_def move_to_next_question_def
  process_photo_answer_def process_text_answer_def process_choice_answer_def
  ret_def and_then_def next_do_def query_def run_command_def command_def send_def get_data_def
  state_clear_def set_state_def update_data_position_def update_data_question_def
  path_exists_def download_file_def now_strftime_def truthy_str_def format_opt_def

lemmas db_defs = fetchone_def get_question_by_id_def get_next_question_def
  get_first_question_def get_user_def get_or_create_user_def update_user_def fk_question_def
  set_current_question_def save_response_def get_or_create_application_def
  application_columns_def valid_fields_def set_column_def update_application_def
  complete_application_def

lemmas example_defs = example_sender_def example_application_def example_world_def
  phone_db_def completed_db_def scenario_db_def empty_db_def example_user_def
  example_question_def example_response_def

text \<open>
  Claim C3.  The applicant is answering a question that is found and whose type is
  \<^verbatim>\<open>photo\<close>, and the storage does not fail.  A text message is answered with the
  request to send a photo, and nothing else changes: the database (the applicant's
  current question, the responses, the application) and the FSM context are as before.
\<close>

theorem text_on_photo_question_reprompts:
  assumes "fsm_state (session w) = Some Answering_questions"
    and "data_question_id (session w) = Some question_id" and "question_id \<noteq> 0"
    and "get_question_by_id (store w) (Some question_id) = Some q"
    and "question_type q = py ''photo''"
    and "budget w = None"
  shows "dispatch from_user (Text_message txt) w =
           (Inr (), w\<lparr>outbox := outbox w @ [Answer Send_photo_not_text None]\<rparr>)"
  using assms
  by (simp add: dispatch_def process_text_answer_def and_then_def get_data_def query_ok send_def)

theorem text_on_photo_question_reprompts_witness:
  "dispatch example_sender (Text_message (py ''Ivan''))
     (example_world scenario_db (Some Answering_questions) (Some 2))
   = (Inr (), (example_world scenario_db (Some Answering_questions) (Some 2))
                \<lparr>outbox := [Answer Send_photo_not_text None]\<rparr>)"
proof -
  let ?w = "example_world scenario_db (Some Answering_questions) (Some 2)"
  let ?q = "example_question 2 2 (py ''photo'') (Some (py ''passport_main''))"
  have "get_question_by_id (store ?w) (Some 2) = Some ?q"
    by (simp add: get_question_by_id_def fetchone_def example_world_def scenario_db_def
        empty_db_def example_question_def)
  moreover have "question_type ?q = py ''photo''" by (simp add: example_question_def)
  moreover have "fsm_state (session ?w) = Some Answering_questions"
    "data_question_id (session ?w) = Some 2" "budget ?w = None" "outbox ?w = []"
    by (simp_all add: example_world_def)
  ultimately show ?thesis
    using text_on_photo_question_reprompts [of ?w 2 ?q example_sender "py ''Ivan''"] by simp
qed

text \<open>
  Claim C8.  For an applicant whose profile has \<^verbatim>\<open>is_registration_complete\<close> set,
  with a storage that does not fail, the start command leaves the database as it was,
  sends the one message that the registration is already complete, and leaves the
  conversation in no state: the flow is not entered again.
\<close>

theorem restart_after_completion:
  assumes "get_user (store w) (from_id from_user) = Some u"
    and "is_registration_complete u"
    and "budget w = None"
  shows "\<exists>w'. dispatch from_user Command_start w = (Inr (), w')
           \<and> store w' = store w
           \<and> outbox w' = outbox w @ [Answer Already_completed None]
           \<and> fsm_state (session w') = None"
  using assms
  by (simp add: dispatch_def cmd_start_def next_do_def and_then_def state_clear_def command_ok
      run_command_def get_or_create_user_def get_user_def send_def)

theorem restart_after_completion_witness:
  "get_user completed_db 1001
     = Some (example_user\<lparr>is_registration_complete := True, current_question_id := None\<rparr>)
   \<and> (\<exists>w'. dispatch example_sender Command_start (example_world completed_db None None)
               = (Inr (), w')
          \<and> store w' = completed_db
          \<and> outbox w' = [Answer Already_completed None]
          \<and> fsm_state (session w') = None)"
proof -
  let ?w = "example_world completed_db None None"
  let ?u = "example_user\<lparr>is_registration_complete := True, current_question_id := None\<rparr>"
  have u: "get_user completed_db 1001 = Some ?u"
    by (simp add: get_user_def fetchone_def completed_db_def scenario_db_def empty_db_def
        example_user_def)
  have "store ?w = completed_db" "from_id example_sender = 1001" "budget ?w = None" "outbox ?w = []"
    "is_registration_complete ?u"
    by (simp_all add: example_world_def example_sender_def)
  then show ?thesis
    using restart_after_completion [of ?w example_sender ?u] u by simp
qed





section \<open>Choice answers\<close>

text \<open>
  Claim C6, at an input where the code departs from it.  A question whose choices are
  \<^verbatim>\<open>choice_A,B\<close> is rendered with a button labelled \<^verbatim>\<open>choice_A\<close> whose callback
  data is \<^verbatim>\<open>choice_choice_A\<close>.  Selecting it succeeds and stores \<^verbatim>\<open>A\<close>, in the
  response and in the application: \<^verbatim>\<open>replace("choice_", "")\<close> removes every occurrence
  of the prefix, not only the one the keyboard added.
\<close>

theorem choice_with_prefix_not_verbatim:
  "get_choices_keyboard (py ''choice_A,B'')
     = [[InlineKeyboardButton (py ''choice_A'') (py ''choice_choice_A'')],
        [InlineKeyboardButton (py ''B'') (py ''choice_B'')]]
   \<and> fst (dispatch example_sender (Callback_query (py ''choice_choice_A''))
            (example_world choice_db (Some Answering_questions) (Some 1))) = Inr ()
   \<and> map text_answer (responses (store (snd
         (dispatch example_sender (Callback_query (py ''choice_choice_A''))
            (example_world choice_db (Some Answering_questions) (Some 1))))))
       = [Some (py ''A'')]
   \<and> map marital_status (applications (store (snd
         (dispatch example_sender (Callback_query (py ''choice_choice_A''))
            (example_world choice_db (Some Answering_questions) (Some 1))))))
       = [Some (py ''A'')]"
proof -
  have kb: "get_choices_keyboard (py ''choice_A,B'')
     = [[InlineKeyboardButton (py ''choice_A'') (py ''choice_choice_A'')],
        [InlineKeyboardButton (py ''B'') (py ''choice_B'')]]"
    by (simp add: get_choices_keyboard_def strip_def is_space_def py_def)
  have run: "fst (dispatch example_sender (Callback_query (py ''choice_choice_A''))
            (example_world choice_db (Some Answering_questions) (Some 1))) = Inr ()
   \<and> map text_answer (responses (store (snd
         (dispatch example_sender (Callback_query (py ''choice_choice_A''))
            (example_world choice_db (Some Answering_questions) (Some 1))))))
       = [Some (py ''A'')]
   \<and> map marital_status (applications (store (snd
         (dispatch example_sender (Callback_query (py ''choice_choice_A''))
            (example_world choice_db (Some Answering_questions) (Some 1))))))
       = [Some (py ''A'')]"
    by (simp add: action_defs db_defs example_defs choice_db_def Let_def py_def replace.simps)
  from kb run show ?thesis by simp
qed

text \<open>
  The answer of the spec's example, the two letters of the Russian yes, has no such
  occurrence and comes back as it was sent.
\<close>

lemma choice_da_round_trip:
  "replace (py ''choice_'') [] (py ''choice_'' @ [1044, 1072]) = [1044, 1072]"
  by (simp add: replace.simps py_def)

section \<open>Completion, once and again\<close>





end
